theory Spec2Isabelle
  imports Main
begin

section \<open>JavaScript values\<close>

text \<open>
  The values that reach \<^verbatim>\<open>WebhookBot\<close>: the primitives and plain data objects (own
  enumerable string-keyed properties, no accessors, not frozen, default prototype).
  A number is an integer-valued double below \<open>2^53\<close> in magnitude, or \<open>NaN\<close>;
  fractions, infinities, symbols and functions are outside the model. An object
  is the map from its own keys to their values.
\<close>

datatype jsval =
    JUndefined
  | JNull
  | JBool bool
  | JNum int
  | JNaN
  | JStr string
  | JObj "string \<Rightarrow> jsval option"

type_synonym object = "string \<Rightarrow> jsval option"

text \<open>What a \<^verbatim>\<open>throw\<close> or a rejected promise carries: a \<^verbatim>\<open>ReferenceError\<close> with the
  identifier that is not defined, a \<^verbatim>\<open>TypeError\<close> with the property that was read
  from \<^verbatim>\<open>undefined\<close> or \<^verbatim>\<open>null\<close>, an \<^verbatim>\<open>Error\<close> with its message, or any value that a
  collaborator throws or rejects with.\<close>

datatype jserror =
    ReferenceError string
  | TypeError string
  | Error string
  | Thrown jsval

text \<open>\<^verbatim>\<open>if (v)\<close>, \<^verbatim>\<open>v || w\<close>, \<^verbatim>\<open>v ? a : b\<close>: the falsy values are
  \<^verbatim>\<open>undefined\<close>, \<^verbatim>\<open>null\<close>, \<^verbatim>\<open>false\<close>, \<^verbatim>\<open>0\<close>, \<^verbatim>\<open>NaN\<close> and the empty string.\<close>

fun truthy :: "jsval \<Rightarrow> bool" where
  "truthy JUndefined = False"
| "truthy JNull = False"
| "truthy (JBool b) = b"
| "truthy (JNum n) = (n \<noteq> 0)"
| "truthy JNaN = False"
| "truthy (JStr s) = (s \<noteq> [])"
| "truthy (JObj ob) = True"

definition js_or :: "jsval \<Rightarrow> jsval \<Rightarrow> jsval" where
  "js_or a b = (if truthy a then a else b)"

text \<open>Decimal digits of a natural number, most significant first.\<close>

fun digits :: "nat \<Rightarrow> string" where
  "digits n =
     (if n < 10 then [char_of (48 + n)]
      else digits (n div 10) @ [char_of (48 + n mod 10)])"

declare digits.simps [simp del]

text \<open>\<^verbatim>\<open>String(v)\<close>, as template literals, \<^verbatim>\<open>+\<close> on a string and \<^verbatim>\<open>new URL(v)\<close>
  apply it.\<close>

fun ToString :: "jsval \<Rightarrow> string" where
  "ToString JUndefined = ''undefined''"
| "ToString JNull = ''null''"
| "ToString (JBool b) = (if b then ''true'' else ''false'')"
| "ToString (JNum n) = (if n < 0 then ''-'' @ digits (nat (- n)) else digits (nat n))"
| "ToString JNaN = ''NaN''"
| "ToString (JStr s) = s"
| "ToString (JObj ob) = ''[object Object]''"

fun ToPrimitive :: "jsval \<Rightarrow> jsval" where
  "ToPrimitive (JObj ob) = JStr ''[object Object]''"
| "ToPrimitive v = v"

fun ToNumber :: "jsval \<Rightarrow> int option" where
  "ToNumber JNull = Some 0"
| "ToNumber (JBool b) = Some (if b then 1 else 0)"
| "ToNumber (JNum n) = Some n"
| "ToNumber v = None"

fun is_string :: "jsval \<Rightarrow> bool" where
  "is_string (JStr s) = True"
| "is_string v = False"

text \<open>The binary \<^verbatim>\<open>+\<close>: concatenation as soon as one operand is a string after
  \<^verbatim>\<open>ToPrimitive\<close>, numeric addition otherwise (\<open>None\<close> of \<open>ToNumber\<close> is \<open>NaN\<close>).\<close>

definition js_plus :: "jsval \<Rightarrow> jsval \<Rightarrow> jsval" where
  "js_plus a b =
     (let pa = ToPrimitive a; pb = ToPrimitive b in
      if is_string pa \<or> is_string pb then JStr (ToString pa @ ToString pb)
      else (case (ToNumber pa, ToNumber pb) of
              (Some x, Some y) \<Rightarrow> JNum (x + y)
            | _ \<Rightarrow> JNaN))"

text \<open>\<^verbatim>\<open>ob.k\<close> on an object: \<^verbatim>\<open>undefined\<close> when the key is missing.\<close>

definition member :: "object \<Rightarrow> string \<Rightarrow> jsval" where
  "member ob k = (case ob k of None \<Rightarrow> JUndefined | Some v \<Rightarrow> v)"

text \<open>\<^verbatim>\<open>v.k\<close> on any value, for a key \<open>k\<close> that no prototype defines (as \<^verbatim>\<open>PORT\<close>):
  a \<^verbatim>\<open>TypeError\<close> on \<^verbatim>\<open>undefined\<close> and \<^verbatim>\<open>null\<close>, \<^verbatim>\<open>undefined\<close> on the other
  primitives.\<close>

fun member_of :: "jsval \<Rightarrow> string \<Rightarrow> jserror + jsval" where
  "member_of JUndefined k = Inl (TypeError k)"
| "member_of JNull k = Inl (TypeError k)"
| "member_of (JObj ob) k = Inr (member ob k)"
| "member_of v k = Inr JUndefined"

text \<open>The own enumerable properties that \<^verbatim>\<open>{...v}\<close> copies: those of an object,
  the indexed characters of a string, nothing of the other primitives.\<close>

fun spread :: "jsval \<Rightarrow> object" where
  "spread (JObj ob) = ob"
| "spread (JStr s) = map_of (zip (map digits [0..<length s]) (map (\<lambda>c. JStr [c]) s))"
| "spread v = Map.empty"

section \<open>The bot, its collaborators and the calls it makes\<close>

type_synonym server = nat

text \<open>The fields of a \<^verbatim>\<open>WebhookBot\<close> that its methods read and write:
  \<^verbatim>\<open>this._BOT_TOKEN\<close> (set by the constructor of \<^verbatim>\<open>Bot\<close>) and
  \<^verbatim>\<open>this._webhookServer\<close> (\<^verbatim>\<open>undefined\<close> until a server is started).\<close>

record bot =
  BOT_TOKEN :: string
  webhookServer :: "server option"

text \<open>
  What the methods call and do not define themselves, taken as parameters:
  \<^item> \<open>URL_protocol s\<close> is \<^verbatim>\<open>new URL(s).protocol\<close>, \<open>None\<close> when the constructor throws;
  \<^item> \<open>tapi method payload\<close> is how the promise of \<^verbatim>\<open>this.tapi(method, payload)\<close>
    (inherited from \<^verbatim>\<open>./bot\<close>) settles: \<open>None\<close> fulfilled, \<open>Some e\<close> rejected with \<open>e\<close>;
  \<^item> \<open>server_startServer port token\<close> is the function exported by \<^verbatim>\<open>./server\<close>: the
    server it returns, or what it throws;
  \<^item> \<open>server_close s\<close> is the \<^verbatim>\<open>err\<close> that \<^verbatim>\<open>s.close\<close> hands to its callback;
  \<^item> \<open>globals\<close> is the global object, where an identifier bound nowhere in the
    module is looked up (a \<^verbatim>\<open>ReferenceError\<close> when it is not there either);
  \<^item> \<open>global_startServer\<close> is the global function \<^verbatim>\<open>startServer\<close>, if there is one.
  Every call of a collaborator returns or throws, every promise it returns settles
  and \<^verbatim>\<open>close\<close> calls its callback; a call that never comes back is outside the model.
\<close>

record env =
  URL_protocol :: "string \<Rightarrow> string option"
  tapi :: "string \<Rightarrow> object \<Rightarrow> jserror option"
  server_startServer :: "jsval \<Rightarrow> string \<Rightarrow> jserror + server"
  server_close :: "server \<Rightarrow> jsval"
  globals :: "string \<Rightarrow> jsval option"
  global_startServer :: "(jsval \<Rightarrow> string \<Rightarrow> jserror + server) option"

text \<open>What \<^verbatim>\<open>console.log\<close> and \<^verbatim>\<open>console.error\<close> are given.\<close>

datatype logged = Text string | Caught jserror

text \<open>The calls a method makes to the outside, recorded in the order it makes them.\<close>

datatype event =
    StartServer jsval string
  | Tapi string object
  | ServerClose server
  | ConsoleLog logged
  | ConsoleError logged

section \<open>WebhookBot.js, second variant\<close>

text \<open>
  \<^verbatim>\<open>async startServer(PORT = 3000)\<close>: calls the function of \<^verbatim>\<open>./server\<close> and stores
  the server in \<^verbatim>\<open>this._webhookServer\<close>. The result is the outcome of the promise,
  the bot afterwards and the calls made.
\<close>

definition startServer :: "env \<Rightarrow> bot \<Rightarrow> jsval \<Rightarrow> (jserror + unit) \<times> bot \<times> event list" where
  "startServer e b PORT =
     (let port = (case PORT of JUndefined \<Rightarrow> JNum 3000 | _ \<Rightarrow> PORT) in
      case server_startServer e port (BOT_TOKEN b) of
        Inl err \<Rightarrow> (Inl err, b, [StartServer port (BOT_TOKEN b)])
      | Inr s \<Rightarrow> (Inr (), b\<lparr>webhookServer := Some s\<rparr>, [StartServer port (BOT_TOKEN b)]))"

text \<open>The \<^verbatim>\<open>Error\<close> that \<^verbatim>\<open>setWebhook\<close> throws for a URL it does not accept; the
  specification calls it \<open>ConfigError\<close>.\<close>

definition ConfigError :: jserror where
  "ConfigError =
     Error (''Invalid Webhook URL! See '' @ [CHR 0x27] @
            ''https://core.telegram.org/bots/api#setwebhook'' @ [CHR 0x27])"

text \<open>\<^verbatim>\<open>const urlPath = options.path || this._BOT_TOKEN\<close>\<close>

definition urlPath :: "object \<Rightarrow> bot \<Rightarrow> jsval" where
  "urlPath options b = js_or (member options ''path'') (JStr (BOT_TOKEN b))"

text \<open>
  \<^verbatim>\<open>async setWebhook(url, options = {})\<close>. \<open>None\<close> for \<open>options\<close> is the argument
  left out. The result is the outcome of the promise, the \<^verbatim>\<open>options\<close> object as the
  method leaves it (the caller's own object when one was passed) and the calls made.
\<close>

definition setWebhook ::
  "env \<Rightarrow> bot \<Rightarrow> jsval \<Rightarrow> object option \<Rightarrow> (jserror + bool) \<times> object \<times> event list" where
  "setWebhook e b url options_arg =
     (let options = (case options_arg of None \<Rightarrow> Map.empty | Some ob \<Rightarrow> ob) in
      if URL_protocol e (ToString url) \<noteq> Some ''https:'' then (Inl ConfigError, options, [])
      else
        let path = urlPath options b;
            options' = (if truthy (member options ''path'') then options(''path'' := None) else options);
            payload = [''url'' \<mapsto> js_plus url path] ++ options'
        in case tapi e ''setWebhook'' payload of
             Some err \<Rightarrow> (Inl err, options', [Tapi ''setWebhook'' payload])
           | None \<Rightarrow> (Inr True, options', [Tapi ''setWebhook'' payload]))"

text \<open>
  \<^verbatim>\<open>async setWebhookAndStartServer(options)\<close>: \<^verbatim>\<open>await this.startServer(options.PORT);
  await this.setWebhook(options);\<close> The one argument is handed to \<^verbatim>\<open>setWebhook\<close> as its
  \<^verbatim>\<open>url\<close>, whose own \<^verbatim>\<open>options\<close> is left out.
\<close>

definition setWebhookAndStartServer ::
  "env \<Rightarrow> bot \<Rightarrow> jsval \<Rightarrow> (jserror + unit) \<times> bot \<times> event list" where
  "setWebhookAndStartServer e b options =
     (case member_of options ''PORT'' of
        Inl err \<Rightarrow> (Inl err, b, [])
      | Inr PORT \<Rightarrow>
          (case startServer e b PORT of
             (Inl err, b1, calls1) \<Rightarrow> (Inl err, b1, calls1)
           | (Inr u, b1, calls1) \<Rightarrow>
               (case setWebhook e b1 options None of
                  (Inl err, opts, calls2) \<Rightarrow> (Inl err, b1, calls1 @ calls2)
                | (Inr ok, opts, calls2) \<Rightarrow> (Inr (), b1, calls1 @ calls2))))"

text \<open>
  The body of the \<^verbatim>\<open>try\<close> block of \<^verbatim>\<open>deleteWebhook\<close>. \<^verbatim>\<open>BOT_TOKEN\<close> and \<^verbatim>\<open>options\<close>
  are bound neither in the method nor in the module, so both are looked up in the
  global object. \<open>Inl\<close> is what the block throws.
\<close>

definition deleteWebhook_try :: "env \<Rightarrow> bot \<Rightarrow> (jserror + unit) \<times> event list" where
  "deleteWebhook_try e b =
     (case globals e ''BOT_TOKEN'' of
        None \<Rightarrow> (Inl (ReferenceError ''BOT_TOKEN''), [])
      | Some token \<Rightarrow>
          let url = JStr (''https://api.telegram.org/bot'' @ ToString token @ ''/'') in
          (case globals e ''options'' of
             None \<Rightarrow> (Inl (ReferenceError ''options''), [])
           | Some options \<Rightarrow>
               let payload = [''url'' \<mapsto> url] ++ spread options in
               (case tapi e ''deleteWebhook'' payload of
                  Some err \<Rightarrow> (Inl err, [Tapi ''deleteWebhook'' payload])
                | None \<Rightarrow>
                    (case webhookServer b of
                       None \<Rightarrow> (Inl (TypeError ''close''), [Tapi ''deleteWebhook'' payload])
                     | Some s \<Rightarrow>
                         let err = server_close e s in
                         if truthy err
                         then (Inl (Thrown err), [Tapi ''deleteWebhook'' payload, ServerClose s])
                         else (Inr (),
                               [Tapi ''deleteWebhook'' payload, ServerClose s,
                                ConsoleLog (Text ''Internal webhook server closed'')])))))"

text \<open>\<^verbatim>\<open>async deleteWebhook()\<close>: \<^verbatim>\<open>true\<close> when the block ran through; whatever it
  throws is caught, logged and turned into \<^verbatim>\<open>false\<close>. The bot is not written to.\<close>

definition deleteWebhook :: "env \<Rightarrow> bot \<Rightarrow> (jserror + bool) \<times> bot \<times> event list" where
  "deleteWebhook e b =
     (case deleteWebhook_try e b of
        (Inr u, calls) \<Rightarrow> (Inr True, b, calls)
      | (Inl err, calls) \<Rightarrow>
          (Inr False, b,
           calls @ [ConsoleError (Text ''Failed to close internal webhook server''),
                    ConsoleError (Caught err)]))"

section \<open>WebhookBot.js, first variant\<close>

text \<open>
  The file holds an earlier copy of the class as well. It differs in three methods;
  its \<^verbatim>\<open>deleteWebhook\<close> is the one above, character for character. The module of
  this copy does not require \<^verbatim>\<open>./server\<close>, so \<^verbatim>\<open>startServer\<close> inside the method of
  that name is a global identifier, as \<^verbatim>\<open>BOT_TOKEN\<close> is in \<^verbatim>\<open>setWebhook\<close>.
\<close>

definition startServer_v1 :: "env \<Rightarrow> bot \<Rightarrow> jsval \<Rightarrow> (jserror + unit) \<times> bot \<times> event list" where
  "startServer_v1 e b PORT =
     (let port = (case PORT of JUndefined \<Rightarrow> JNum 3000 | _ \<Rightarrow> PORT) in
      case global_startServer e of
        None \<Rightarrow> (Inl (ReferenceError ''startServer''), b, [])
      | Some f \<Rightarrow>
          (case f port (BOT_TOKEN b) of
             Inl err \<Rightarrow> (Inl err, b, [StartServer port (BOT_TOKEN b)])
           | Inr s \<Rightarrow> (Inr (), b\<lparr>webhookServer := Some s\<rparr>, [StartServer port (BOT_TOKEN b)])))"

definition setWebhook_v1 :: "env \<Rightarrow> bot \<Rightarrow> object option \<Rightarrow> (jserror + bool) \<times> event list" where
  "setWebhook_v1 e b options_arg =
     (let options = (case options_arg of None \<Rightarrow> Map.empty | Some ob \<Rightarrow> ob) in
      case globals e ''BOT_TOKEN'' of
        None \<Rightarrow> (Inl (ReferenceError ''BOT_TOKEN''), [])
      | Some token \<Rightarrow>
          let payload =
                [''url'' \<mapsto> JStr (''https://api.telegram.org/bot'' @ ToString token @ ''/'')] ++ options
          in (case tapi e ''setWebhook'' payload of
                Some err \<Rightarrow> (Inl err, [Tapi ''setWebhook'' payload])
              | None \<Rightarrow> (Inr True, [Tapi ''setWebhook'' payload])))"

definition setWebhookAndStartServer_v1 ::
  "env \<Rightarrow> bot \<Rightarrow> jsval \<Rightarrow> object option \<Rightarrow> (jserror + unit) \<times> bot \<times> event list" where
  "setWebhookAndStartServer_v1 e b PORT options_arg =
     (case setWebhook_v1 e b options_arg of
        (Inl err, calls1) \<Rightarrow> (Inl err, b, calls1)
      | (Inr ok, calls1) \<Rightarrow>
          (case startServer_v1 e b PORT of
             (Inl err, b1, calls2) \<Rightarrow> (Inl err, b1, calls1 @ calls2)
           | (Inr u, b1, calls2) \<Rightarrow> (Inr (), b1, calls1 @ calls2)))"

section \<open>Properties of a sequence of calls\<close>

text \<open>No \<^verbatim>\<open>setWebhook\<close> call to the API before a call that starts the server;
  \<open>started\<close> says whether the server was started before the sequence.\<close>

fun listener_first :: "bool \<Rightarrow> event list \<Rightarrow> bool" where
  "listener_first started [] = True"
| "listener_first started (StartServer port token # es) = listener_first True es"
| "listener_first started (Tapi m payload # es) =
     ((m \<noteq> ''setWebhook'' \<or> started) \<and> listener_first started es)"
| "listener_first started (ev # es) = listener_first started es"

text \<open>No \<^verbatim>\<open>close\<close> of the server before a \<^verbatim>\<open>deleteWebhook\<close> call to the API whose
  promise is fulfilled; \<open>removed\<close> says whether there was one before the sequence.\<close>

fun close_after_delete :: "env \<Rightarrow> bool \<Rightarrow> event list \<Rightarrow> bool" where
  "close_after_delete e removed [] = True"
| "close_after_delete e removed (Tapi m payload # es) =
     close_after_delete e (removed \<or> (m = ''deleteWebhook'' \<and> tapi e m payload = None)) es"
| "close_after_delete e removed (ServerClose s # es) = (removed \<and> close_after_delete e removed es)"
| "close_after_delete e removed (ev # es) = close_after_delete e removed es"

text \<open>What the API calls of method \<open>m\<close> carry under key \<open>k\<close>, call by call
  (\<open>None\<close>: the payload has no such key).\<close>

fun sent :: "string \<Rightarrow> string \<Rightarrow> event list \<Rightarrow> jsval option list" where
  "sent m k [] = []"
| "sent m k (Tapi m' payload # es) = (if m' = m then payload k # sent m k es else sent m k es)"
| "sent m k (ev # es) = sent m k es"

text \<open>The servers that are closed, in order.\<close>

fun closes :: "event list \<Rightarrow> server list" where
  "closes [] = []"
| "closes (ServerClose s # es) = s # closes es"
| "closes (ev # es) = closes es"

section \<open>A bot and its collaborators, for the examples\<close>

definition example_bot :: bot where
  "example_bot = \<lparr>BOT_TOKEN = ''TOKEN'', webhookServer = None\<rparr>"

text \<open>A URL constructor that knows two URLs, with the protocols Node reports for
  them, and throws on any other string; an API whose calls all succeed; a server
  module that returns server \<open>1\<close>, which closes without an error; no globals.\<close>

definition example_env :: env where
  "example_env =
     \<lparr>URL_protocol =
        (\<lambda>s. if s = ''https://example.com/'' then Some ''https:''
             else if s = ''http://example.com/'' then Some ''http:'' else None),
      tapi = (\<lambda>m payload. None),
      server_startServer = (\<lambda>port token. Inr 1),
      server_close = (\<lambda>s. JUndefined),
      globals = Map.empty,
      global_startServer = None\<rparr>"

text \<open>The same with the globals \<^verbatim>\<open>BOT_TOKEN\<close>, \<^verbatim>\<open>options\<close> and \<^verbatim>\<open>startServer\<close> that the
  free identifiers of the methods need.\<close>

definition globals_env :: env where
  "globals_env =
     example_env
       \<lparr>globals := [''BOT_TOKEN'' \<mapsto> JStr ''TOKEN'', ''options'' \<mapsto> JObj Map.empty],
        global_startServer := Some (\<lambda>port token. Inr 1)\<rparr>"

text \<open>With the globals, an API that rejects \<^verbatim>\<open>deleteWebhook\<close>.\<close>

definition api_down_env :: env where
  "api_down_env =
     globals_env
       \<lparr>tapi := (\<lambda>m payload. if m = ''deleteWebhook'' then Some (Thrown (JStr ''ApiError'')) else None)\<rparr>"

text \<open>With the globals, a server whose \<^verbatim>\<open>close\<close> reports an error.\<close>

definition stuck_env :: env where
  "stuck_env = globals_env\<lparr>server_close := (\<lambda>s. JStr ''ERR_SERVER_NOT_RUNNING'')\<rparr>"

text \<open>The bot once \<^verbatim>\<open>startServer\<close> has stored server \<open>1\<close>.\<close>

definition started_bot :: bot where
  "started_bot = example_bot\<lparr>webhookServer := Some 1\<rparr>"

text \<open>Options with a path and a \<^verbatim>\<open>url\<close> entry of their own, and with the entry alone.\<close>

definition path_url_options :: object where
  "path_url_options = [''path'' \<mapsto> JStr ''x'', ''url'' \<mapsto> JStr ''http://elsewhere.example/'']"

definition url_options :: object where
  "url_options = [''url'' \<mapsto> JStr ''http://elsewhere.example/'']"

text \<open>Options without a path.\<close>

definition plain_options :: object where
  "plain_options = [''max_connections'' \<mapsto> JNum 40]"

text \<open>Options with a path, and with a path that is the empty string.\<close>

definition path_options :: object where
  "path_options = [''path'' \<mapsto> JStr ''x'', ''max_connections'' \<mapsto> JNum 40]"

definition empty_path_options :: object where
  "empty_path_options = [''path'' \<mapsto> JStr [], ''max_connections'' \<mapsto> JNum 40]"

section \<open>Unfolding the methods\<close>

lemmas method_defs =
  startServer_def setWebhook_def setWebhookAndStartServer_def deleteWebhook_try_def
  deleteWebhook_def urlPath_def js_or_def member_def Let_def

lemmas v1_defs =
  startServer_v1_def setWebhook_v1_def setWebhookAndStartServer_v1_def Let_def

lemmas example_defs =
  example_bot_def example_env_def globals_env_def api_down_env_def stuck_env_def
  started_bot_def path_url_options_def url_options_def plain_options_def
  path_options_def empty_path_options_def

lemma js_plus_strings: "js_plus (JStr u) (JStr x) = JStr (u @ x)"
  by (simp add: js_plus_def)

section \<open>Starting the server and registering the webhook\<close>

text \<open>
  C1. \<^verbatim>\<open>setWebhookAndStartServer\<close> never calls \<^verbatim>\<open>setWebhook\<close> of the API before the
  server has been started: whatever the argument and the collaborators do, no
  \<^verbatim>\<open>setWebhook\<close> call stands in the sequence of calls before a call that starts the
  server; and when the \<^verbatim>\<open>setWebhook\<close> call is made, it is the second call of two, the
  first started the server without throwing and the server is stored in the bot.
\<close>

theorem setWebhookAndStartServer_listener_first:
  "setWebhookAndStartServer e b options = (r, b', calls) \<Longrightarrow>
     listener_first False calls \<and>
     (\<forall>payload. Tapi ''setWebhook'' payload \<in> set calls \<longrightarrow>
        (\<exists>port s. calls = [StartServer port (BOT_TOKEN b), Tapi ''setWebhook'' payload] \<and>
                  server_startServer e port (BOT_TOKEN b) = Inr s \<and> webhookServer b' = Some s))"
  by (auto simp: setWebhookAndStartServer_def startServer_def setWebhook_def Let_def
           split: sum.splits prod.splits option.splits if_splits)

text \<open>The method is given the URL as its argument: the port defaults to 3000, the
  server is started, then the webhook is registered under the URL and the token.\<close>

theorem setWebhookAndStartServer_listener_first_witness:
  "setWebhookAndStartServer example_env example_bot (JStr ''https://example.com/'') =
     (Inr (), started_bot,
      [StartServer (JNum 3000) ''TOKEN'',
       Tapi ''setWebhook'' [''url'' \<mapsto> JStr ''https://example.com/TOKEN'']]) \<and>
   listener_first False
      [StartServer (JNum 3000) ''TOKEN'',
       Tapi ''setWebhook'' [''url'' \<mapsto> JStr ''https://example.com/TOKEN'']] \<and>
   server_startServer example_env (JNum 3000) ''TOKEN'' = Inr 1 \<and>
   webhookServer started_bot = Some 1"
proof -
  have run:
    "setWebhookAndStartServer example_env example_bot (JStr ''https://example.com/'') =
       (Inr (), started_bot,
        [StartServer (JNum 3000) ''TOKEN'',
         Tapi ''setWebhook'' [''url'' \<mapsto> JStr ''https://example.com/TOKEN'']])"
    by (simp add: method_defs example_defs js_plus_strings)
  have first:
    "listener_first False
       [StartServer (JNum 3000) ''TOKEN'',
        Tapi ''setWebhook'' [''url'' \<mapsto> JStr ''https://example.com/TOKEN'']]"
    using setWebhookAndStartServer_listener_first [OF run] by (rule conjunct1)
  from run first show ?thesis
    by (simp add: example_defs)
qed

text \<open>With an options object as the argument, as the method documents it, the server
  is started and the registration is refused: the object itself is taken as the URL,
  and no URL constructor accepts \<^verbatim>\<open>[object Object]\<close>.\<close>

lemma setWebhookAndStartServer_object:
  "URL_protocol e ''[object Object]'' \<noteq> Some ''https:'' \<Longrightarrow>
   \<exists>r b' port. setWebhookAndStartServer e b (JObj ob) =
                 (r, b', [StartServer port (BOT_TOKEN b)]) \<and> r \<noteq> Inr ()"
  by (auto simp: setWebhookAndStartServer_def startServer_def setWebhook_def Let_def
           split: sum.splits prod.splits option.splits if_splits jsval.splits)

text \<open>The first variant registers first and starts the server afterwards; with the
  globals it depends on, the \<^verbatim>\<open>setWebhook\<close> call is the first of its two calls.
  Its \<^verbatim>\<open>setWebhook\<close> takes no URL, checks nothing and sends the options as they are,
  \<^verbatim>\<open>path\<close> included; without a global \<^verbatim>\<open>BOT_TOKEN\<close> it throws before any call.\<close>

lemma setWebhookAndStartServer_v1_example:
  "setWebhookAndStartServer_v1 globals_env example_bot (JNum 3000) None =
     (Inr (), started_bot,
      [Tapi ''setWebhook'' [''url'' \<mapsto> JStr ''https://api.telegram.org/botTOKEN/''],
       StartServer (JNum 3000) ''TOKEN''])"
  by (simp add: v1_defs example_defs)

lemma setWebhook_v1_payload:
  "globals e ''BOT_TOKEN'' = Some token \<Longrightarrow>
   snd (setWebhook_v1 e b (Some options)) =
     [Tapi ''setWebhook''
        ([''url'' \<mapsto> JStr (''https://api.telegram.org/bot'' @ ToString token @ ''/'')] ++ options)]"
  by (simp add: v1_defs split: option.splits)

lemma setWebhookAndStartServer_v1_no_globals:
  "globals e ''BOT_TOKEN'' = None \<Longrightarrow>
   setWebhookAndStartServer_v1 e b PORT options_arg = (Inl (ReferenceError ''BOT_TOKEN''), b, [])"
  by (simp add: v1_defs)

section \<open>Validation of the URL\<close>

text \<open>
  C2. For every URL whose protocol is not \<^verbatim>\<open>https:\<close>, and for every string that the
  URL constructor rejects, \<^verbatim>\<open>setWebhook\<close> fails with the error of an invalid webhook
  URL before it calls anything: the sequence of calls is empty (no call to the API,
  no server started) and the options are left as they were.
\<close>

theorem setWebhook_rejects_non_https:
  "URL_protocol e (ToString url) \<noteq> Some ''https:'' \<Longrightarrow>
   setWebhook e b url options_arg =
     (Inl ConfigError, (case options_arg of None \<Rightarrow> Map.empty | Some ob \<Rightarrow> ob), [])"
  by (simp add: setWebhook_def)

text \<open>A URL with the protocol \<^verbatim>\<open>http:\<close>, and a string that is no URL.\<close>

theorem setWebhook_rejects_non_https_witness:
  "URL_protocol example_env (ToString (JStr ''http://example.com/'')) \<noteq> Some ''https:'' \<and>
   setWebhook example_env example_bot (JStr ''http://example.com/'') (Some path_options) =
     (Inl ConfigError, path_options, []) \<and>
   URL_protocol example_env (ToString (JStr ''example.com'')) \<noteq> Some ''https:'' \<and>
   setWebhook example_env example_bot (JStr ''example.com'') None = (Inl ConfigError, Map.empty, [])"
proof -
  have h1: "URL_protocol example_env (ToString (JStr ''http://example.com/'')) \<noteq> Some ''https:''"
    by (simp add: example_env_def)
  have h2: "URL_protocol example_env (ToString (JStr ''example.com'')) \<noteq> Some ''https:''"
    by (simp add: example_env_def)
  from setWebhook_rejects_non_https [OF h1, of example_bot "Some path_options"]
       setWebhook_rejects_non_https [OF h2, of example_bot None] h1 h2
  show ?thesis by simp
qed

section \<open>The path of the webhook URL\<close>

text \<open>
  Where the options have no \<^verbatim>\<open>url\<close> entry of their own, the registration carries the
  URL that was checked, followed by the path: for every URL that passes the check,
  every non-empty string \<open>x\<close> and every such options object with \<^verbatim>\<open>path\<close> = \<open>x\<close>,
  \<^verbatim>\<open>setWebhook\<close> makes one call to the API, whose payload has the URL followed by \<open>x\<close>
  under \<^verbatim>\<open>url\<close> and has no \<^verbatim>\<open>path\<close> key.
\<close>

lemma setWebhook_path_option:
  "setWebhook e b (JStr u) (Some options) = (r, options', calls) \<Longrightarrow>
   URL_protocol e u = Some ''https:'' \<Longrightarrow>
   options ''path'' = Some (JStr x) \<Longrightarrow> x \<noteq> [] \<Longrightarrow> options ''url'' = None \<Longrightarrow>
     calls = [Tapi ''setWebhook'' ([''url'' \<mapsto> JStr (u @ x)] ++ options(''path'' := None))] \<and>
     sent ''setWebhook'' ''url'' calls = [Some (JStr (u @ x))] \<and>
     sent ''setWebhook'' ''path'' calls = [None]"
  by (auto simp: setWebhook_def urlPath_def js_or_def member_def Let_def js_plus_strings map_add_def
           split: option.splits)

lemma setWebhook_path_option_example:
  "URL_protocol example_env ''https://example.com/'' = Some ''https:'' \<and>
   path_options ''path'' = Some (JStr ''x'') \<and> path_options ''url'' = None \<and>
   sent ''setWebhook'' ''url''
     (snd (snd (setWebhook example_env example_bot (JStr ''https://example.com/'') (Some path_options)))) =
     [Some (JStr ''https://example.com/x'')] \<and>
   sent ''setWebhook'' ''path''
     (snd (snd (setWebhook example_env example_bot (JStr ''https://example.com/'') (Some path_options)))) =
     [None]"
proof -
  let ?run = "setWebhook example_env example_bot (JStr ''https://example.com/'') (Some path_options)"
  have run: "?run = (fst ?run, fst (snd ?run), snd (snd ?run))"
    by simp
  have https: "URL_protocol example_env ''https://example.com/'' = Some ''https:''"
    by (simp add: example_env_def)
  have path: "path_options ''path'' = Some (JStr ''x'')"
    by (simp add: path_options_def)
  have x: "''x'' \<noteq> []"
    by simp
  have url: "path_options ''url'' = None"
    by (simp add: path_options_def)
  note sent_facts = setWebhook_path_option [OF run https path x url]
  have sent_url: "sent ''setWebhook'' ''url'' (snd (snd ?run)) = [Some (JStr (''https://example.com/'' @ ''x''))]"
    using sent_facts by (rule conjunct1 [OF conjunct2])
  have sent_path: "sent ''setWebhook'' ''path'' (snd (snd ?run)) = [None]"
    using sent_facts by (rule conjunct2 [OF conjunct2])
  from sent_url sent_path https path url
  show ?thesis by simp
qed

text \<open>The same when no path is given: with the options left out, or with neither a
  \<^verbatim>\<open>path\<close> nor a \<^verbatim>\<open>url\<close> entry, the payload has the URL followed by the token of the
  bot under \<^verbatim>\<open>url\<close>.\<close>

lemma setWebhook_default_path:
  "setWebhook e b (JStr u) options_arg = (r, options', calls) \<Longrightarrow>
   URL_protocol e u = Some ''https:'' \<Longrightarrow>
   \<forall>options. options_arg = Some options \<longrightarrow> options ''path'' = None \<and> options ''url'' = None \<Longrightarrow>
     sent ''setWebhook'' ''url'' calls = [Some (JStr (u @ BOT_TOKEN b))]"
  by (cases options_arg)
     (auto simp: setWebhook_def urlPath_def js_or_def member_def Let_def js_plus_strings map_add_def
           split: option.splits)

lemma setWebhook_default_path_example:
  "URL_protocol example_env ''https://example.com/'' = Some ''https:'' \<and>
   plain_options ''path'' = None \<and> plain_options ''url'' = None \<and>
   BOT_TOKEN example_bot = ''TOKEN'' \<and>
   sent ''setWebhook'' ''url''
     (snd (snd (setWebhook example_env example_bot (JStr ''https://example.com/'') None))) =
     [Some (JStr ''https://example.com/TOKEN'')] \<and>
   sent ''setWebhook'' ''url''
     (snd (snd (setWebhook example_env example_bot (JStr ''https://example.com/'') (Some plain_options)))) =
     [Some (JStr ''https://example.com/TOKEN'')]"
proof -
  let ?none = "setWebhook example_env example_bot (JStr ''https://example.com/'') None"
  let ?plain = "setWebhook example_env example_bot (JStr ''https://example.com/'') (Some plain_options)"
  have none: "?none = (fst ?none, fst (snd ?none), snd (snd ?none))"
    by simp
  have plain: "?plain = (fst ?plain, fst (snd ?plain), snd (snd ?plain))"
    by simp
  have https: "URL_protocol example_env ''https://example.com/'' = Some ''https:''"
    by (simp add: example_env_def)
  have left_out: "\<forall>options. None = Some options \<longrightarrow> options ''path'' = None \<and> options ''url'' = None"
    by simp
  have keys: "plain_options ''path'' = None \<and> plain_options ''url'' = None"
    by (simp add: plain_options_def)
  then have given:
    "\<forall>options. Some plain_options = Some options \<longrightarrow> options ''path'' = None \<and> options ''url'' = None"
    by simp
  have token: "BOT_TOKEN example_bot = ''TOKEN''"
    by (simp add: example_bot_def)
  from setWebhook_default_path [OF none https left_out]
       setWebhook_default_path [OF plain https given] https keys token
  show ?thesis by simp
qed

text \<open>
  The options are spread into the payload after the \<^verbatim>\<open>url\<close> that the method has
  built. An options object with a \<^verbatim>\<open>url\<close> entry of its own therefore replaces the
  URL that was checked: whatever that entry is, it is what the call to the API
  carries under \<^verbatim>\<open>url\<close>, and it has been through no check. A truthy \<^verbatim>\<open>path\<close> is
  still taken out of the payload.
\<close>

lemma setWebhook_url_entry:
  "setWebhook e b url (Some options) = (r, options', calls) \<Longrightarrow>
   URL_protocol e (ToString url) = Some ''https:'' \<Longrightarrow> options ''url'' = Some v \<Longrightarrow>
     sent ''setWebhook'' ''url'' calls = [Some v]"
  by (auto simp: setWebhook_def Let_def map_add_def split: option.splits if_splits)

lemma setWebhook_path_absent:
  "setWebhook e b url (Some options) = (r, options', calls) \<Longrightarrow>
   URL_protocol e (ToString url) = Some ''https:'' \<Longrightarrow>
   options ''path'' = Some v \<Longrightarrow> truthy v \<Longrightarrow>
     urlPath options b = v \<and> sent ''setWebhook'' ''path'' calls = [None]"
  by (auto simp: setWebhook_def urlPath_def js_or_def member_def Let_def map_add_def
           split: option.splits)

text \<open>
  C3. For a valid https URL and options with \<^verbatim>\<open>path\<close> = \<open>x\<close>, the payload of the
  registration is to carry the URL followed by \<open>x\<close> under \<^verbatim>\<open>url\<close>, and no \<^verbatim>\<open>path\<close>.
  With \<^verbatim>\<open>https://example.com/\<close> and the options \<^verbatim>\<open>path\<close> = \<open>x\<close>,
  \<^verbatim>\<open>url\<close> = \<^verbatim>\<open>http://elsewhere.example/\<close>, the method returns \<^verbatim>\<open>true\<close> and the payload
  has no \<^verbatim>\<open>path\<close>, but what it carries under \<^verbatim>\<open>url\<close> is the entry of the options,
  which is not \<^verbatim>\<open>https://example.com/x\<close> and does not pass the check itself.
\<close>

theorem setWebhook_path_option_url_entry:
  "URL_protocol example_env ''https://example.com/'' = Some ''https:'' \<and>
   path_url_options ''path'' = Some (JStr ''x'') \<and>
   fst (setWebhook example_env example_bot (JStr ''https://example.com/'') (Some path_url_options)) =
     Inr True \<and>
   sent ''setWebhook'' ''path''
     (snd (snd (setWebhook example_env example_bot (JStr ''https://example.com/'') (Some path_url_options)))) =
     [None] \<and>
   sent ''setWebhook'' ''url''
     (snd (snd (setWebhook example_env example_bot (JStr ''https://example.com/'') (Some path_url_options)))) =
     [Some (JStr ''http://elsewhere.example/'')] \<and>
   sent ''setWebhook'' ''url''
     (snd (snd (setWebhook example_env example_bot (JStr ''https://example.com/'') (Some path_url_options)))) \<noteq>
     [Some (JStr ''https://example.com/x'')] \<and>
   URL_protocol example_env ''http://elsewhere.example/'' \<noteq> Some ''https:''"
  by (simp add: method_defs example_defs js_plus_strings map_add_def)

text \<open>
  C4. For a valid https URL and no \<^verbatim>\<open>path\<close> in the options, the payload of the
  registration is to carry the URL followed by the token of the bot under \<^verbatim>\<open>url\<close>.
  With \<^verbatim>\<open>https://example.com/\<close> and the options \<^verbatim>\<open>url\<close> = \<^verbatim>\<open>http://elsewhere.example/\<close>
  alone, the method returns \<^verbatim>\<open>true\<close> and what the payload carries under \<^verbatim>\<open>url\<close> is
  the entry of the options, which is not \<^verbatim>\<open>https://example.com/TOKEN\<close> and does
  not pass the check itself.
\<close>

theorem setWebhook_default_path_url_entry:
  "URL_protocol example_env ''https://example.com/'' = Some ''https:'' \<and>
   url_options ''path'' = None \<and> BOT_TOKEN example_bot = ''TOKEN'' \<and>
   fst (setWebhook example_env example_bot (JStr ''https://example.com/'') (Some url_options)) =
     Inr True \<and>
   sent ''setWebhook'' ''url''
     (snd (snd (setWebhook example_env example_bot (JStr ''https://example.com/'') (Some url_options)))) =
     [Some (JStr ''http://elsewhere.example/'')] \<and>
   sent ''setWebhook'' ''url''
     (snd (snd (setWebhook example_env example_bot (JStr ''https://example.com/'') (Some url_options)))) \<noteq>
     [Some (JStr ''https://example.com/TOKEN'')] \<and>
   URL_protocol example_env ''http://elsewhere.example/'' \<noteq> Some ''https:''"
  by (simp add: method_defs example_defs js_plus_strings map_add_def)

text \<open>
  C9 (amended). For every call of \<^verbatim>\<open>setWebhook\<close> whose URL passes the check and every
  options object with a truthy \<^verbatim>\<open>path\<close>, the object the caller passed has lost its
  \<^verbatim>\<open>path\<close> after the call and kept every other property, whether the call to the API
  succeeds or not.
\<close>

theorem setWebhook_deletes_path:
  "setWebhook e b url (Some options) = (r, options', calls) \<Longrightarrow>
   URL_protocol e (ToString url) = Some ''https:'' \<Longrightarrow>
   options ''path'' = Some v \<Longrightarrow> truthy v \<Longrightarrow>
     options' = options(''path'' := None) \<and> options' ''path'' = None \<and>
     (\<forall>k. k \<noteq> ''path'' \<longrightarrow> options' k = options k)"
  by (auto simp: setWebhook_def member_def Let_def split: option.splits)

theorem setWebhook_deletes_path_witness:
  "URL_protocol example_env (ToString (JStr ''https://example.com/'')) = Some ''https:'' \<and>
   path_options ''path'' = Some (JStr ''x'') \<and> truthy (JStr ''x'') \<and>
   fst (snd (setWebhook example_env example_bot (JStr ''https://example.com/'') (Some path_options))) ''path'' =
     None \<and>
   fst (snd (setWebhook example_env example_bot (JStr ''https://example.com/'') (Some path_options)))
     ''max_connections'' = Some (JNum 40)"
proof -
  let ?run = "setWebhook example_env example_bot (JStr ''https://example.com/'') (Some path_options)"
  have run: "?run = (fst ?run, fst (snd ?run), snd (snd ?run))"
    by simp
  have https: "URL_protocol example_env (ToString (JStr ''https://example.com/'')) = Some ''https:''"
    by (simp add: example_env_def)
  have path: "path_options ''path'' = Some (JStr ''x'')"
    by (simp add: path_options_def)
  have x: "truthy (JStr ''x'')"
    by simp
  have "fst (snd ?run) = path_options(''path'' := None)"
    using setWebhook_deletes_path [OF run https path x] by (rule conjunct1)
  with https path x show ?thesis
    by (simp add: path_options_def)
qed

text \<open>As the claim states it, for every call, it fails: a URL that does not pass the
  check makes the method throw before it reaches the options.\<close>

theorem setWebhook_deletes_path_counterexample:
  "path_options ''path'' = Some (JStr ''x'') \<and> truthy (JStr ''x'') \<and>
   fst (snd (setWebhook example_env example_bot (JStr ''http://example.com/'') (Some path_options))) ''path'' =
     Some (JStr ''x'')"
  by (simp add: method_defs example_defs)

text \<open>
  C10. The override is decided by truthiness: for every options object whose \<^verbatim>\<open>path\<close>
  is falsy, the path that \<^verbatim>\<open>setWebhook\<close> derives is the token of the bot and the
  object keeps its \<^verbatim>\<open>path\<close>; when the URL passes the check, the payload of the one
  call to the API has the options spread into it with that \<^verbatim>\<open>path\<close>, and (if the
  options have no \<^verbatim>\<open>url\<close> entry) the URL followed by the token under \<^verbatim>\<open>url\<close>.
\<close>

theorem setWebhook_falsy_path:
  "setWebhook e b url (Some options) = (r, options', calls) \<Longrightarrow>
   options ''path'' = Some v \<Longrightarrow> \<not> truthy v \<Longrightarrow>
     urlPath options b = JStr (BOT_TOKEN b) \<and> options' = options \<and>
     (URL_protocol e (ToString url) = Some ''https:'' \<longrightarrow>
        calls = [Tapi ''setWebhook'' ([''url'' \<mapsto> js_plus url (JStr (BOT_TOKEN b))] ++ options)] \<and>
        sent ''setWebhook'' ''path'' calls = [Some v] \<and>
        (options ''url'' = None \<longrightarrow>
           sent ''setWebhook'' ''url'' calls = [Some (js_plus url (JStr (BOT_TOKEN b)))]))"
  by (auto simp: setWebhook_def urlPath_def js_or_def member_def Let_def map_add_def
           split: option.splits if_splits)

theorem setWebhook_falsy_path_witness:
  "empty_path_options ''path'' = Some (JStr []) \<and> \<not> truthy (JStr []) \<and>
   \<not> truthy (JNum 0) \<and> \<not> truthy JNull \<and>
   URL_protocol example_env (ToString (JStr ''https://example.com/'')) = Some ''https:'' \<and>
   empty_path_options ''url'' = None \<and>
   urlPath empty_path_options example_bot = JStr ''TOKEN'' \<and>
   sent ''setWebhook'' ''path''
     (snd (snd (setWebhook example_env example_bot (JStr ''https://example.com/'')
        (Some empty_path_options)))) = [Some (JStr [])] \<and>
   sent ''setWebhook'' ''url''
     (snd (snd (setWebhook example_env example_bot (JStr ''https://example.com/'')
        (Some empty_path_options)))) = [Some (JStr ''https://example.com/TOKEN'')]"
proof -
  let ?run = "setWebhook example_env example_bot (JStr ''https://example.com/'') (Some empty_path_options)"
  have run: "?run = (fst ?run, fst (snd ?run), snd (snd ?run))"
    by simp
  have path: "empty_path_options ''path'' = Some (JStr [])"
    by (simp add: empty_path_options_def)
  have falsy: "\<not> truthy (JStr [])"
    by simp
  have https: "URL_protocol example_env (ToString (JStr ''https://example.com/'')) = Some ''https:''"
    by (simp add: example_env_def)
  have url: "empty_path_options ''url'' = None"
    by (simp add: empty_path_options_def)
  note facts = setWebhook_falsy_path [OF run path falsy]
  have derived: "urlPath empty_path_options example_bot = JStr (BOT_TOKEN example_bot)"
    using facts by (rule conjunct1)
  have "URL_protocol example_env (ToString (JStr ''https://example.com/'')) = Some ''https:'' \<longrightarrow>
        snd (snd ?run) =
          [Tapi ''setWebhook''
             ([''url'' \<mapsto> js_plus (JStr ''https://example.com/'') (JStr (BOT_TOKEN example_bot))] ++
              empty_path_options)] \<and>
        sent ''setWebhook'' ''path'' (snd (snd ?run)) = [Some (JStr [])] \<and>
        (empty_path_options ''url'' = None \<longrightarrow>
           sent ''setWebhook'' ''url'' (snd (snd ?run)) =
             [Some (js_plus (JStr ''https://example.com/'') (JStr (BOT_TOKEN example_bot)))])"
    using facts by (rule conjunct2 [OF conjunct2])
  with https url
  have sent_path: "sent ''setWebhook'' ''path'' (snd (snd ?run)) = [Some (JStr [])]"
    and sent_url: "sent ''setWebhook'' ''url'' (snd (snd ?run)) =
             [Some (js_plus (JStr ''https://example.com/'') (JStr (BOT_TOKEN example_bot)))]"
    by blast+
  from derived sent_path sent_url https url path
  show ?thesis
    by (simp add: js_plus_strings example_bot_def)
qed

section \<open>Teardown\<close>

text \<open>What \<^verbatim>\<open>deleteWebhook\<close> sends, when it sends anything, is built from the globals
  \<^verbatim>\<open>BOT_TOKEN\<close> and \<^verbatim>\<open>options\<close>, not from the bot or from what was registered.\<close>

lemma deleteWebhook_payload:
  "deleteWebhook e b = (r, b', calls) \<Longrightarrow> Tapi m payload \<in> set calls \<Longrightarrow>
     \<exists>token opts. globals e ''BOT_TOKEN'' = Some token \<and> globals e ''options'' = Some opts \<and>
        m = ''deleteWebhook'' \<and>
        payload = [''url'' \<mapsto> JStr (''https://api.telegram.org/bot'' @ ToString token @ ''/'')] ++ spread opts"
  by (auto simp: deleteWebhook_def deleteWebhook_try_def Let_def
           split: option.splits if_splits)

text \<open>Without a global \<^verbatim>\<open>BOT_TOKEN\<close> the first statement of the \<^verbatim>\<open>try\<close> block throws:
  nothing is sent, nothing is closed, and the method returns \<^verbatim>\<open>false\<close>.\<close>

lemma deleteWebhook_no_globals:
  "globals e ''BOT_TOKEN'' = None \<Longrightarrow>
   deleteWebhook e b =
     (Inr False, b,
      [ConsoleError (Text ''Failed to close internal webhook server''),
       ConsoleError (Caught (ReferenceError ''BOT_TOKEN''))])"
  by (simp add: deleteWebhook_def deleteWebhook_try_def)

text \<open>The method never rejects, and returns \<^verbatim>\<open>true\<close> exactly when both globals exist,
  the API call is fulfilled and the stored server closes without an error.\<close>

lemma deleteWebhook_returns_boolean: "\<exists>ok. fst (deleteWebhook e b) = Inr ok"
  by (auto simp: deleteWebhook_def split: prod.splits sum.splits)

lemma deleteWebhook_true_iff:
  "fst (deleteWebhook e b) = Inr True \<longleftrightarrow>
     (\<exists>token opts s. globals e ''BOT_TOKEN'' = Some token \<and> globals e ''options'' = Some opts \<and>
        tapi e ''deleteWebhook''
          ([''url'' \<mapsto> JStr (''https://api.telegram.org/bot'' @ ToString token @ ''/'')] ++ spread opts) = None \<and>
        webhookServer b = Some s \<and> \<not> truthy (server_close e s))"
  by (auto simp: deleteWebhook_def deleteWebhook_try_def Let_def
           split: option.splits if_splits)

text \<open>
  C5. In every run of \<^verbatim>\<open>deleteWebhook\<close>, no \<^verbatim>\<open>close\<close> of the server stands in the
  sequence of calls before a \<^verbatim>\<open>deleteWebhook\<close> call to the API whose promise was
  fulfilled: when the server is closed, the fulfilled API call is the first call
  and the \<^verbatim>\<open>close\<close> the second.
\<close>

theorem deleteWebhook_close_after_delete:
  "deleteWebhook e b = (r, b', calls) \<Longrightarrow>
     close_after_delete e False calls \<and>
     (\<forall>s. ServerClose s \<in> set calls \<longrightarrow>
        (\<exists>payload rest. calls = Tapi ''deleteWebhook'' payload # ServerClose s # rest \<and>
                         tapi e ''deleteWebhook'' payload = None))"
  by (auto simp: deleteWebhook_def deleteWebhook_try_def Let_def
           split: option.splits if_splits)

theorem deleteWebhook_close_after_delete_witness:
  "deleteWebhook globals_env started_bot =
     (Inr True, started_bot,
      [Tapi ''deleteWebhook'' [''url'' \<mapsto> JStr ''https://api.telegram.org/botTOKEN/''],
       ServerClose 1,
       ConsoleLog (Text ''Internal webhook server closed'')]) \<and>
   close_after_delete globals_env False
      [Tapi ''deleteWebhook'' [''url'' \<mapsto> JStr ''https://api.telegram.org/botTOKEN/''],
       ServerClose 1,
       ConsoleLog (Text ''Internal webhook server closed'')] \<and>
   tapi globals_env ''deleteWebhook'' [''url'' \<mapsto> JStr ''https://api.telegram.org/botTOKEN/''] = None"
proof -
  have run:
    "deleteWebhook globals_env started_bot =
       (Inr True, started_bot,
        [Tapi ''deleteWebhook'' [''url'' \<mapsto> JStr ''https://api.telegram.org/botTOKEN/''],
         ServerClose 1,
         ConsoleLog (Text ''Internal webhook server closed'')])"
    by (simp add: method_defs example_defs)
  have ordered:
    "close_after_delete globals_env False
       [Tapi ''deleteWebhook'' [''url'' \<mapsto> JStr ''https://api.telegram.org/botTOKEN/''],
        ServerClose 1,
        ConsoleLog (Text ''Internal webhook server closed'')]"
    using deleteWebhook_close_after_delete [OF run] by (rule conjunct1)
  have fulfilled:
    "tapi globals_env ''deleteWebhook'' [''url'' \<mapsto> JStr ''https://api.telegram.org/botTOKEN/''] = None"
    by (simp add: example_defs)
  from run ordered fulfilled show ?thesis
    by simp
qed

text \<open>
  C6. In every run of \<^verbatim>\<open>deleteWebhook\<close> in which the \<^verbatim>\<open>deleteWebhook\<close> call to the API
  is rejected, no server is closed, the method returns \<^verbatim>\<open>false\<close> and the bot is as
  it was; the rejection is logged.
\<close>

theorem deleteWebhook_deregistration_fails:
  "deleteWebhook e b = (r, b', calls) \<Longrightarrow>
   Tapi ''deleteWebhook'' payload \<in> set calls \<Longrightarrow> tapi e ''deleteWebhook'' payload = Some err \<Longrightarrow>
     r = Inr False \<and> b' = b \<and> closes calls = [] \<and>
     calls = [Tapi ''deleteWebhook'' payload,
              ConsoleError (Text ''Failed to close internal webhook server''),
              ConsoleError (Caught err)]"
  by (auto simp: deleteWebhook_def deleteWebhook_try_def Let_def
           split: option.splits if_splits)

theorem deleteWebhook_deregistration_fails_witness:
  "Tapi ''deleteWebhook'' [''url'' \<mapsto> JStr ''https://api.telegram.org/botTOKEN/'']
     \<in> set (snd (snd (deleteWebhook api_down_env started_bot))) \<and>
   tapi api_down_env ''deleteWebhook'' [''url'' \<mapsto> JStr ''https://api.telegram.org/botTOKEN/''] =
     Some (Thrown (JStr ''ApiError'')) \<and>
   fst (deleteWebhook api_down_env started_bot) = Inr False \<and>
   fst (snd (deleteWebhook api_down_env started_bot)) = started_bot \<and>
   closes (snd (snd (deleteWebhook api_down_env started_bot))) = []"
proof -
  let ?run = "deleteWebhook api_down_env started_bot"
  let ?payload = "[''url'' \<mapsto> JStr ''https://api.telegram.org/botTOKEN/'']"
  have run: "?run = (fst ?run, fst (snd ?run), snd (snd ?run))"
    by simp
  have called: "Tapi ''deleteWebhook'' ?payload \<in> set (snd (snd ?run))"
    by (simp add: method_defs example_defs)
  have rejected: "tapi api_down_env ''deleteWebhook'' ?payload = Some (Thrown (JStr ''ApiError''))"
    by (simp add: example_defs)
  note facts = deleteWebhook_deregistration_fails [OF run called rejected]
  have result: "fst ?run = Inr False"
    using facts by (rule conjunct1)
  have same_bot: "fst (snd ?run) = started_bot"
    using facts by (rule conjunct1 [OF conjunct2])
  have open_server: "closes (snd (snd ?run)) = []"
    using facts by (rule conjunct1 [OF conjunct2 [OF conjunct2]])
  from called rejected result same_bot open_server show ?thesis
    by simp
qed

text \<open>
  C7 (amended). In every run of \<^verbatim>\<open>deleteWebhook\<close> in which the call to the API is
  fulfilled and the \<^verbatim>\<open>close\<close> of the server reports an error, the method returns
  \<^verbatim>\<open>false\<close>, never \<^verbatim>\<open>true\<close>, after logging the error; it does not reject, and no
  error reaches the caller.
\<close>

theorem deleteWebhook_close_error:
  "deleteWebhook e b = (r, b', calls) \<Longrightarrow>
   Tapi ''deleteWebhook'' payload \<in> set calls \<Longrightarrow> tapi e ''deleteWebhook'' payload = None \<Longrightarrow>
   webhookServer b = Some s \<Longrightarrow> truthy (server_close e s) \<Longrightarrow>
     r = Inr False \<and> b' = b \<and>
     calls = [Tapi ''deleteWebhook'' payload, ServerClose s,
              ConsoleError (Text ''Failed to close internal webhook server''),
              ConsoleError (Caught (Thrown (server_close e s)))]"
  by (auto simp: deleteWebhook_def deleteWebhook_try_def Let_def
           split: option.splits if_splits)

theorem deleteWebhook_close_error_witness:
  "Tapi ''deleteWebhook'' [''url'' \<mapsto> JStr ''https://api.telegram.org/botTOKEN/'']
     \<in> set (snd (snd (deleteWebhook stuck_env started_bot))) \<and>
   tapi stuck_env ''deleteWebhook'' [''url'' \<mapsto> JStr ''https://api.telegram.org/botTOKEN/''] = None \<and>
   webhookServer started_bot = Some 1 \<and> truthy (server_close stuck_env 1) \<and>
   fst (deleteWebhook stuck_env started_bot) = Inr False \<and>
   snd (snd (deleteWebhook stuck_env started_bot)) =
     [Tapi ''deleteWebhook'' [''url'' \<mapsto> JStr ''https://api.telegram.org/botTOKEN/''],
      ServerClose 1,
      ConsoleError (Text ''Failed to close internal webhook server''),
      ConsoleError (Caught (Thrown (JStr ''ERR_SERVER_NOT_RUNNING'')))]"
proof -
  let ?run = "deleteWebhook stuck_env started_bot"
  let ?payload = "[''url'' \<mapsto> JStr ''https://api.telegram.org/botTOKEN/'']"
  have run: "?run = (fst ?run, fst (snd ?run), snd (snd ?run))"
    by simp
  have called: "Tapi ''deleteWebhook'' ?payload \<in> set (snd (snd ?run))"
    by (simp add: method_defs example_defs)
  have fulfilled: "tapi stuck_env ''deleteWebhook'' ?payload = None"
    by (simp add: example_defs)
  have server: "webhookServer started_bot = Some 1"
    by (simp add: example_defs)
  have error: "truthy (server_close stuck_env 1)"
    by (simp add: example_defs)
  have reported: "server_close stuck_env 1 = JStr ''ERR_SERVER_NOT_RUNNING''"
    by (simp add: example_defs)
  note facts = deleteWebhook_close_error [OF run called fulfilled server error]
  have result: "fst ?run = Inr False"
    using facts by (rule conjunct1)
  have calls:
    "snd (snd ?run) =
       [Tapi ''deleteWebhook'' ?payload, ServerClose 1,
        ConsoleError (Text ''Failed to close internal webhook server''),
        ConsoleError (Caught (Thrown (server_close stuck_env 1)))]"
    using facts by (rule conjunct2 [OF conjunct2])
  have logged:
    "snd (snd ?run) =
       [Tapi ''deleteWebhook'' ?payload, ServerClose 1,
        ConsoleError (Text ''Failed to close internal webhook server''),
        ConsoleError (Caught (Thrown (JStr ''ERR_SERVER_NOT_RUNNING'')))]"
    using calls reported by simp
  from called fulfilled server error result logged show ?thesis
    by blast
qed

text \<open>As the claim states it, it fails: the caller gets the boolean \<^verbatim>\<open>false\<close>, not an
  error, and gets the same when it is the API call that was rejected.\<close>

theorem deleteWebhook_close_error_counterexample:
  "sent ''deleteWebhook'' ''url'' (snd (snd (deleteWebhook stuck_env started_bot))) =
     [Some (JStr ''https://api.telegram.org/botTOKEN/'')] \<and>
   tapi stuck_env ''deleteWebhook'' [''url'' \<mapsto> JStr ''https://api.telegram.org/botTOKEN/''] = None \<and>
   closes (snd (snd (deleteWebhook stuck_env started_bot))) = [1] \<and>
   truthy (server_close stuck_env 1) \<and>
   fst (deleteWebhook stuck_env started_bot) = Inr False \<and>
   fst (deleteWebhook stuck_env started_bot) \<noteq> Inl (Thrown (server_close stuck_env 1)) \<and>
   fst (deleteWebhook stuck_env started_bot) = fst (deleteWebhook api_down_env started_bot)"
  by (simp add: method_defs example_defs)

text \<open>
  C8. Registering \<^verbatim>\<open>https://example.com/\<close> with no options and tearing down: the
  server is started on port 3000 and the registration carries the URL followed by
  the token. The teardown then throws on its first statement, where \<^verbatim>\<open>BOT_TOKEN\<close>
  is not defined: it sends nothing, closes nothing and returns \<^verbatim>\<open>false\<close>. Where the
  globals exist, what it sends under \<^verbatim>\<open>url\<close> is the address of the API with the
  global token, not the URL that was registered.
\<close>

theorem register_then_teardown_example:
  "startServer example_env example_bot (JNum 3000) =
     (Inr (), started_bot, [StartServer (JNum 3000) ''TOKEN'']) \<and>
   setWebhook example_env started_bot (JStr ''https://example.com/'') None =
     (Inr True, Map.empty, [Tapi ''setWebhook'' [''url'' \<mapsto> JStr ''https://example.com/TOKEN'']]) \<and>
   deleteWebhook example_env started_bot =
     (Inr False, started_bot,
      [ConsoleError (Text ''Failed to close internal webhook server''),
       ConsoleError (Caught (ReferenceError ''BOT_TOKEN''))]) \<and>
   sent ''deleteWebhook'' ''url'' (snd (snd (deleteWebhook example_env started_bot))) = [] \<and>
   closes (snd (snd (deleteWebhook example_env started_bot))) = [] \<and>
   sent ''deleteWebhook'' ''url'' (snd (snd (deleteWebhook globals_env started_bot))) =
     [Some (JStr ''https://api.telegram.org/botTOKEN/'')]"
  by (simp add: method_defs example_defs js_plus_strings)

end
